theory Spec2Isabelle
  imports
    Main
    "HOL-Library.Char_ord"
    "HOL-Library.List_Lexorder"
    "HOL-Library.Product_Lexorder"
    "HOL-Library.AList"
    "HOL-Library.Sublist"
    "HOL-Library.Multiset"
begin

section \<open>The merge strategies of scaraplate (strategies.py)\<close>

text \<open>
  Every strategy is built from an optional target stream, a template stream and the
  template's metadata, and \<open>apply\<close> yields the stream to write. An exception of the
  Python code is a value \<open>Inl e\<close> of the result.
\<close>

subsection \<open>Errors, streams, metadata\<close>

datatype error =
    KeyError
  | ParseError
  | UnicodeDecodeError
  | UnicodeEncodeError

text \<open>
  A \<open>BinaryIO\<close> stream (\<open>io.BytesIO\<close>): the bytes it holds and its read position.
  \<open>read()\<close> gives the bytes from the position on; \<open>io.BytesIO(b)\<close> is a fresh
  stream at position 0; \<open>seek(0)\<close> resets the position.
\<close>

record BinaryIO =
  buf :: string
  pos :: nat

definition read :: "BinaryIO \<Rightarrow> string" where
  "read s = drop (pos s) (buf s)"

definition BytesIO :: "string \<Rightarrow> BinaryIO" where
  "BytesIO b = \<lparr>buf = b, pos = 0\<rparr>"

definition seek0 :: "BinaryIO \<Rightarrow> BinaryIO" where
  "seek0 s = s\<lparr>pos := 0\<rparr>"

text \<open>
  \<open>TemplateMeta\<close> comes from the template module; the strategies read two of its
  attributes.
\<close>

record TemplateMeta =
  commit_url :: string
  is_git_dirty :: bool

text \<open>
  The methods of Python's \<open>str\<close> and the UTF-8 codec that the strategies call and
  that this development does not fix: every theorem below holds for whatever functions
  stand here. \<open>bytes.decode()\<close> may raise; \<open>str.encode()\<close> of decoded text does not.
\<close>

record pystr =
  casefold :: "string \<Rightarrow> string"
  lower :: "string \<Rightarrow> string"
  decode :: "string \<Rightarrow> error + string"
  encode :: "string \<Rightarrow> string"

subsection \<open>String helpers: \<open>str.join\<close>, \<open>str.splitlines\<close>, \<open>str.split\<close>\<close>

fun join :: "string \<Rightarrow> string list \<Rightarrow> string" where
  "join sep [] = []"
| "join sep [x] = x"
| "join sep (x # y # ys) = x @ sep @ join sep (y # ys)"

text \<open>
  \<open>str.splitlines()\<close> ends a line at each of the line boundaries of Python
  (\<open>\n\<close>, \<open>\r\<close>, \<open>\r\n\<close> as one, \<open>\v\<close>, \<open>\f\<close>, \<open>\x1c\<close>, \<open>\x1d\<close>, \<open>\x1e\<close>,
  \<open>\x85\<close>), drops the boundaries, and yields no final empty line.
\<close>

definition is_linebreak :: "char \<Rightarrow> bool" where
  "is_linebreak c =
     (c = CHR 0x0A \<or> c = CHR 0x0B \<or> c = CHR 0x0C \<or> c = CHR 0x0D \<or>
      c = CHR 0x1C \<or> c = CHR 0x1D \<or> c = CHR 0x1E \<or> c = CHR 0x85)"

fun splitlines_from :: "string \<Rightarrow> string \<Rightarrow> string list" where
  "splitlines_from acc [] = (if acc = [] then [] else [rev acc])"
| "splitlines_from acc (c # cs) =
     (if c = CHR 0x0D then
        (case cs of
           [] \<Rightarrow> [rev acc]
         | d # ds \<Rightarrow>
             if d = CHR 0x0A then rev acc # splitlines_from [] ds
             else rev acc # splitlines_from [] (d # ds))
      else if is_linebreak c then rev acc # splitlines_from [] cs
      else splitlines_from (c # acc) cs)"

definition splitlines :: "string \<Rightarrow> string list" where
  "splitlines s = splitlines_from [] s"

subsection \<open>Overwrite and IfMissing\<close>

definition Overwrite_apply :: "BinaryIO option \<Rightarrow> BinaryIO \<Rightarrow> error + BinaryIO" where
  "Overwrite_apply target_contents template_contents = Inr template_contents"

definition IfMissing_apply :: "BinaryIO option \<Rightarrow> BinaryIO \<Rightarrow> error + BinaryIO" where
  "IfMissing_apply target_contents template_contents =
     (case target_contents of
        None \<Rightarrow> Inr template_contents
      | Some t \<Rightarrow> Inr t)"

subsection \<open>SortedUniqueLines\<close>

text \<open>
  \<open>sorted(set(out_lines), key=lambda s: (s.casefold(), s))\<close>: the set is enumerated
  here by \<open>remdups\<close>; the key is injective, so the sorted list does not depend on the
  enumeration (lemma \<open>sort_key_enumeration\<close> below).
\<close>

definition line_key :: "pystr \<Rightarrow> string \<Rightarrow> string \<times> string" where
  "line_key S s = (casefold S s, s)"

definition sorted_unique :: "pystr \<Rightarrow> string list \<Rightarrow> string list" where
  "sorted_unique S out_lines =
     filter (\<lambda>line. line \<noteq> []) (sort_key (line_key S) (remdups out_lines))"

definition SortedUniqueLines_apply ::
  "pystr \<Rightarrow> BinaryIO option \<Rightarrow> BinaryIO \<Rightarrow> error + BinaryIO" where
  "SortedUniqueLines_apply S target_contents template_contents =
     (case decode S (read template_contents) of
        Inl e \<Rightarrow> Inl e
      | Inr template_text \<Rightarrow>
          (case target_contents of
             None \<Rightarrow>
               Inr (BytesIO (encode S (join ''\<newline>''
                 (sorted_unique S (splitlines template_text) @ ['''']))))
           | Some t \<Rightarrow>
               (case decode S (read t) of
                  Inl e \<Rightarrow> Inl e
                | Inr target_text \<Rightarrow>
                    Inr (BytesIO (encode S (join ''\<newline>''
                      (sorted_unique S (splitlines template_text @ splitlines target_text)
                         @ [''''])))))))"

subsection \<open>TemplateHash, PythonTemplateHash, GroovyTemplateHash\<close>

text \<open>
  The three classes differ in \<open>line_comment_start\<close> and in \<open>comment()\<close>; \<open>apply()\<close>
  is inherited unchanged, so it is one function of the class.
\<close>

datatype hash_class = TemplateHash | PythonTemplateHash | GroovyTemplateHash

definition line_comment_start :: "hash_class \<Rightarrow> string" where
  "line_comment_start cls =
     (case cls of
        TemplateHash \<Rightarrow> ''#''
      | PythonTemplateHash \<Rightarrow> ''#''
      | GroovyTemplateHash \<Rightarrow> ''//'')"

definition line_length :: nat where
  "line_length = 87"

definition comment_lines :: "TemplateMeta \<Rightarrow> string list" where
  "comment_lines meta =
     [''Generated by https://github.com/rambler-digital-solutions/scaraplate''] @
     (if is_git_dirty meta then [''From (dirty) '' @ commit_url meta]
      else [''From '' @ commit_url meta])"

definition TemplateHash_comment :: "hash_class \<Rightarrow> TemplateMeta \<Rightarrow> string" where
  "TemplateHash_comment cls meta =
     concat (map (\<lambda>line. line_comment_start cls @ '' '' @ line @ ''\<newline>'')
       (comment_lines meta))"

text \<open>\<open>str.split(sep)\<close> for a separator of one character.\<close>

fun split_chr :: "char \<Rightarrow> string \<Rightarrow> string list" where
  "split_chr sep [] = [[]]"
| "split_chr sep (c # cs) =
     (if c = sep then [] # split_chr sep cs
      else (case split_chr sep cs of
              [] \<Rightarrow> [[c]]
            | l # ls \<Rightarrow> (c # l) # ls))"

definition maybe_add_noqa :: "string \<Rightarrow> string" where
  "maybe_add_noqa line =
     (if length line \<ge> line_length then line @ ''  # noqa'' else line)"

definition PythonTemplateHash_comment :: "TemplateMeta \<Rightarrow> string" where
  "PythonTemplateHash_comment meta =
     join ''\<newline>''
       (map maybe_add_noqa (split_chr CHR 0x0A (TemplateHash_comment PythonTemplateHash meta)))"

definition comment :: "hash_class \<Rightarrow> TemplateMeta \<Rightarrow> string" where
  "comment cls meta =
     (case cls of
        TemplateHash \<Rightarrow> TemplateHash_comment cls meta
      | PythonTemplateHash \<Rightarrow> PythonTemplateHash_comment meta
      | GroovyTemplateHash \<Rightarrow> TemplateHash_comment cls meta)"

text \<open>\<open>str.encode("ascii")\<close> raises on a character outside the 7-bit range.\<close>

definition is_ascii :: "string \<Rightarrow> bool" where
  "is_ascii s = list_all (\<lambda>c. of_char c < (128::nat)) s"

definition encode_ascii :: "string \<Rightarrow> error + string" where
  "encode_ascii s = (if is_ascii s then Inr s else Inl UnicodeEncodeError)"

definition TemplateHash_apply ::
  "hash_class \<Rightarrow> BinaryIO option \<Rightarrow> BinaryIO \<Rightarrow> TemplateMeta \<Rightarrow> error + BinaryIO" where
  "TemplateHash_apply cls target_contents template_contents template_meta =
     (case encode_ascii (comment cls template_meta) of
        Inl e \<Rightarrow> Inl e
      | Inr c \<Rightarrow>
          (case target_contents of
             None \<Rightarrow> Inr (BytesIO (read template_contents @ ''\<newline>'' @ c))
           | Some t \<Rightarrow>
               if sublist c (read t) \<and> \<not> is_git_dirty template_meta
               then Inr (seek0 t)
               else Inr (BytesIO (read template_contents @ ''\<newline>'' @ c))))"

subsection \<open>The parsed document and the parsers module\<close>

text \<open>
  The \<open>ConfigParser\<close> objects that the two merging strategies work on: named sections
  in order, each an ordered mapping from keys to string values (section 3 of the
  specification). Lookups are \<open>map_of\<close>; an assignment keeps the place of an existing
  entry and appends a new one, as a Python \<open>dict\<close> does. The \<open>DEFAULT\<close> section and the
  interpolation of values belong to the parser objects that the parsers module builds;
  that module is not part of the sources and the documents here have neither.
\<close>

type_synonym section_data = "(string \<times> string) list"

type_synonym ConfigParser = "(string \<times> section_data) list"

definition has_section :: "ConfigParser \<Rightarrow> string \<Rightarrow> bool" where
  "has_section parser section = (map_of parser section \<noteq> None)"

definition add_section :: "ConfigParser \<Rightarrow> string \<Rightarrow> ConfigParser" where
  "add_section parser section = parser @ [(section, [])]"

definition sections :: "ConfigParser \<Rightarrow> string list" where
  "sections parser = map fst parser"

text \<open>\<open>parser[section]\<close>\<close>

definition getitem :: "ConfigParser \<Rightarrow> string \<Rightarrow> error + section_data" where
  "getitem parser section =
     (case map_of parser section of
        None \<Rightarrow> Inl KeyError
      | Some d \<Rightarrow> Inr d)"

text \<open>\<open>parser[section][key]\<close>\<close>

definition getitem2 :: "ConfigParser \<Rightarrow> string \<Rightarrow> string \<Rightarrow> error + string" where
  "getitem2 parser section key =
     (case getitem parser section of
        Inl e \<Rightarrow> Inl e
      | Inr d \<Rightarrow>
          (case map_of d key of
             None \<Rightarrow> Inl KeyError
           | Some v \<Rightarrow> Inr v))"

text \<open>\<open>parser[section] = section_data\<close>\<close>

definition setitem :: "ConfigParser \<Rightarrow> string \<Rightarrow> section_data \<Rightarrow> ConfigParser" where
  "setitem parser section section_data = AList.update section section_data parser"

text \<open>\<open>parser[section][key] = value\<close>\<close>

definition setitem2 :: "ConfigParser \<Rightarrow> string \<Rightarrow> string \<Rightarrow> string \<Rightarrow> error + ConfigParser" where
  "setitem2 parser section key v =
     (case getitem parser section of
        Inl e \<Rightarrow> Inl e
      | Inr d \<Rightarrow> Inr (AList.update section (AList.update key v d) parser))"

definition ensure_section :: "ConfigParser \<Rightarrow> string \<Rightarrow> ConfigParser" where
  "ensure_section parser section =
     (if \<not> has_section parser section then add_section parser section else parser)"

text \<open>
  The functions that strategies.py imports from the parsers module, which is not among
  the sources: they are parameters of the model, and the theorems hold for all of them.
\<close>

record parsers =
  requirement_name :: "string \<Rightarrow> string"
  parse_setupcfg_requirements :: "string \<Rightarrow> string list"
  dump_setupcfg_requirements :: "string list \<Rightarrow> string"
  setup_cfg_parser :: "BinaryIO \<Rightarrow> string \<Rightarrow> error + ConfigParser"
  pylintrc_parser :: "BinaryIO \<Rightarrow> string \<Rightarrow> error + ConfigParser"
  parser_to_pretty_output :: "ConfigParser \<Rightarrow> BinaryIO"

text \<open>Sequencing of two steps, the first of which may raise.\<close>

definition and_then :: "error + 'a \<Rightarrow> ('a \<Rightarrow> error + 'b) \<Rightarrow> error + 'b" where
  "and_then r f = (case r of Inl e \<Rightarrow> Inl e | Inr x \<Rightarrow> f x)"

subsection \<open>PylintrcMerge\<close>

text \<open>
  \<open>_maybe_preserve_key\<close> (the same method in PylintrcMerge and SetupcfgMerge): the
  \<open>KeyError\<close> of the lookup in the target is caught and leaves the template as it is.
\<close>

definition maybe_preserve_key ::
  "ConfigParser \<Rightarrow> ConfigParser \<Rightarrow> string \<Rightarrow> string \<Rightarrow> error + ConfigParser" where
  "maybe_preserve_key template_parser target_parser section key =
     (case getitem2 target_parser section key of
        Inl e \<Rightarrow> (if e = KeyError then Inr template_parser else Inl e)
      | Inr target \<Rightarrow> setitem2 (ensure_section template_parser section) section key target)"

text \<open>The body of \<open>PylintrcMerge.apply\<close> between parsing and serialising.\<close>

definition PylintrcMerge_merge ::
  "ConfigParser \<Rightarrow> ConfigParser option \<Rightarrow> error + ConfigParser" where
  "PylintrcMerge_merge template_parser target =
     (case target of
        None \<Rightarrow> Inr template_parser
      | Some target_parser \<Rightarrow>
          and_then
            (maybe_preserve_key template_parser target_parser ''TYPECHECK'' ''ignored-modules'')
            (\<lambda>template_parser.
               maybe_preserve_key template_parser target_parser ''TYPECHECK'' ''ignored-classes''))"

definition parse_target ::
  "(BinaryIO \<Rightarrow> string \<Rightarrow> error + ConfigParser) \<Rightarrow> BinaryIO option \<Rightarrow> string \<Rightarrow>
     error + ConfigParser option" where
  "parse_target parser target_contents source =
     (case target_contents of
        None \<Rightarrow> Inr None
      | Some t \<Rightarrow> and_then (parser t source) (\<lambda>target_parser. Inr (Some target_parser)))"

definition PylintrcMerge_apply ::
  "parsers \<Rightarrow> BinaryIO option \<Rightarrow> BinaryIO \<Rightarrow> error + BinaryIO" where
  "PylintrcMerge_apply P target_contents template_contents =
     and_then (pylintrc_parser P template_contents ''.pylintrc.template'')
       (\<lambda>template_parser.
          and_then (parse_target (pylintrc_parser P) target_contents ''.pylintrc.target'')
            (\<lambda>target.
               and_then (PylintrcMerge_merge template_parser target)
                 (\<lambda>template_parser. Inr (parser_to_pretty_output P template_parser))))"

subsection \<open>Regular expressions of SetupcfgMerge\<close>

text \<open>
  The patterns that \<open>SetupcfgMerge\<close> compiles are built from \<open>^\<close> at the start,
  ordinary characters, the dot and \<open>$\<close> at the end. In Python's \<open>re\<close> a dot stands for
  any character but a newline, and \<open>$\<close> matches at the end of the string and also just
  before a newline that ends the string. \<open>Pattern.match\<close> matches at the start of the
  string.
\<close>

datatype re_item = Lit char | AnyChar

record pattern =
  items :: "re_item list"
  dollar :: bool

fun re_items :: "string \<Rightarrow> re_item list" where
  "re_items [] = []"
| "re_items (c # cs) = (if c = CHR ''.'' then AnyChar else Lit c) # re_items cs"

definition re_compile :: "string \<Rightarrow> pattern" where
  "re_compile p =
     (let body = (case p of [] \<Rightarrow> [] | c # cs \<Rightarrow> if c = CHR ''^'' then cs else c # cs)
      in if body \<noteq> [] \<and> last body = CHR ''$''
         then \<lparr>items = re_items (butlast body), dollar = True\<rparr>
         else \<lparr>items = re_items body, dollar = False\<rparr>)"

fun match_items :: "re_item list \<Rightarrow> string \<Rightarrow> string option" where
  "match_items [] s = Some s"
| "match_items (i # is) [] = None"
| "match_items (Lit c # is) (x # xs) = (if x = c then match_items is xs else None)"
| "match_items (AnyChar # is) (x # xs) =
     (if x = CHR 0x0A then None else match_items is xs)"

definition re_match :: "pattern \<Rightarrow> string \<Rightarrow> bool" where
  "re_match p s =
     (case match_items (items p) s of
        None \<Rightarrow> False
      | Some rest \<Rightarrow> if dollar p then rest = [] \<or> rest = ''\<newline>'' else True)"

subsection \<open>SetupcfgMerge\<close>

text \<open>
  \<open>_maybe_preserve_sections\<close>: the loop over \<open>target_parser.sections()\<close>. The inner
  loop over \<open>template_parser[section].items()\<close> is \<open>restore_ignored\<close>; the lookup
  \<open>template_parser[section]\<close> in front of it raises \<open>KeyError\<close> when the template has
  no such section.
\<close>

fun restore_ignored :: "pattern \<Rightarrow> section_data \<Rightarrow> section_data \<Rightarrow> section_data" where
  "restore_ignored ignore_keys_pattern section_data [] = section_data"
| "restore_ignored ignore_keys_pattern section_data ((key, v) # rest) =
     restore_ignored ignore_keys_pattern
       (if re_match ignore_keys_pattern key then AList.update key v section_data
        else section_data)
       rest"

fun preserve_loop ::
  "ConfigParser \<Rightarrow> ConfigParser \<Rightarrow> pattern \<Rightarrow> pattern option \<Rightarrow> string list \<Rightarrow>
     error + ConfigParser" where
  "preserve_loop template_parser target_parser sections_pattern ignore_keys_pattern [] =
     Inr template_parser"
| "preserve_loop template_parser target_parser sections_pattern ignore_keys_pattern
     (section # rest) =
     (if re_match sections_pattern section then
        and_then (getitem target_parser section)
          (\<lambda>section_data.
             and_then
               (case ignore_keys_pattern of
                  None \<Rightarrow> Inr section_data
                | Some ip \<Rightarrow>
                    and_then (getitem template_parser section)
                      (\<lambda>template_items. Inr (restore_ignored ip section_data template_items)))
               (\<lambda>section_data.
                  preserve_loop (setitem template_parser section section_data) target_parser
                    sections_pattern ignore_keys_pattern rest))
      else
        preserve_loop template_parser target_parser sections_pattern ignore_keys_pattern rest)"

definition maybe_preserve_sections ::
  "ConfigParser \<Rightarrow> ConfigParser \<Rightarrow> pattern \<Rightarrow> pattern option \<Rightarrow> error + ConfigParser" where
  "maybe_preserve_sections template_parser target_parser sections_pattern ignore_keys_pattern =
     preserve_loop template_parser target_parser sections_pattern ignore_keys_pattern
       (sections target_parser)"

text \<open>\<open>_parse_requirements\<close>: a missing section or key gives the empty list.\<close>

definition parse_requirements ::
  "parsers \<Rightarrow> ConfigParser \<Rightarrow> string \<Rightarrow> string \<Rightarrow> error + string list" where
  "parse_requirements P parser section key =
     (case getitem2 parser section key of
        Inl e \<Rightarrow> (if e = KeyError then Inr [] else Inl e)
      | Inr requirements \<Rightarrow> Inr (parse_setupcfg_requirements P requirements))"

definition normalize_requirement :: "parsers \<Rightarrow> pystr \<Rightarrow> string \<Rightarrow> string" where
  "normalize_requirement P S requirement = lower S (requirement_name P requirement)"

text \<open>
  The loop of \<open>_merge_requirements\<close> over the template's requirements, appending to
  \<open>wanted_requirements\<close>; the set of existing names is fixed before the loop.
\<close>

fun append_wanted ::
  "(string \<Rightarrow> string) \<Rightarrow> string set \<Rightarrow> string list \<Rightarrow> string list \<Rightarrow> string list" where
  "append_wanted name_of existing_requirement_names wanted_requirements [] =
     wanted_requirements"
| "append_wanted name_of existing_requirement_names wanted_requirements (requirement # rest) =
     append_wanted name_of existing_requirement_names
       (if name_of requirement \<notin> existing_requirement_names
        then wanted_requirements @ [requirement]
        else wanted_requirements)
       rest"

definition merged_requirements ::
  "parsers \<Rightarrow> pystr \<Rightarrow> string list \<Rightarrow> string list \<Rightarrow> string list" where
  "merged_requirements P S template_requirements target_requirements =
     (let existing_requirement_names = set (map (normalize_requirement P S) target_requirements);
          wanted_requirements =
            append_wanted (normalize_requirement P S) existing_requirement_names
              target_requirements template_requirements
      in sort_key (casefold S) wanted_requirements)"

definition merge_requirements ::
  "parsers \<Rightarrow> pystr \<Rightarrow> ConfigParser \<Rightarrow> ConfigParser option \<Rightarrow> string \<Rightarrow> string \<Rightarrow>
     error + ConfigParser" where
  "merge_requirements P S template_parser target section key =
     and_then (parse_requirements P template_parser section key)
       (\<lambda>template_requirements.
          and_then
            (case target of
               Some target_parser \<Rightarrow> parse_requirements P target_parser section key
             | None \<Rightarrow> Inr [])
            (\<lambda>target_requirements.
               setitem2 (ensure_section template_parser section) section key
                 (dump_setupcfg_requirements P
                    (merged_requirements P S template_requirements target_requirements))))"

text \<open>
  The part of \<open>SetupcfgMerge.apply\<close> that runs only with a target: five section
  preservations and two key preservations, in the order of the source.
\<close>

definition preserve_from_target :: "ConfigParser \<Rightarrow> ConfigParser \<Rightarrow> error + ConfigParser" where
  "preserve_from_target template_parser target_parser =
     and_then (maybe_preserve_sections template_parser target_parser
                 (re_compile ''^freebsd$'') None)
    (\<lambda>template_parser.
     and_then (maybe_preserve_sections template_parser target_parser
                 (re_compile ''^mypy-'') None)
    (\<lambda>template_parser.
     and_then (maybe_preserve_sections template_parser target_parser
                 (re_compile ''^options.data_files$'') None)
    (\<lambda>template_parser.
     and_then (maybe_preserve_sections template_parser target_parser
                 (re_compile ''^options.entry_points$'') None)
    (\<lambda>template_parser.
     and_then (maybe_preserve_sections template_parser target_parser
                 (re_compile ''^options.extras_require$'') (Some (re_compile ''^develop$'')))
    (\<lambda>template_parser.
     and_then (maybe_preserve_key template_parser target_parser ''tool:pytest'' ''testpaths'')
    (\<lambda>template_parser.
     maybe_preserve_key template_parser target_parser ''build'' ''executable''))))))"

text \<open>The body of \<open>SetupcfgMerge.apply\<close> between parsing and serialising.\<close>

definition SetupcfgMerge_merge ::
  "parsers \<Rightarrow> pystr \<Rightarrow> ConfigParser \<Rightarrow> ConfigParser option \<Rightarrow> error + ConfigParser" where
  "SetupcfgMerge_merge P S template_parser target =
     and_then
       (case target of
          None \<Rightarrow> Inr template_parser
        | Some target_parser \<Rightarrow> preserve_from_target template_parser target_parser)
    (\<lambda>template_parser.
     and_then (merge_requirements P S template_parser target
                 ''options.extras_require'' ''develop'')
    (\<lambda>template_parser.
     merge_requirements P S template_parser target ''options'' ''install_requires''))"

definition SetupcfgMerge_apply ::
  "parsers \<Rightarrow> pystr \<Rightarrow> BinaryIO option \<Rightarrow> BinaryIO \<Rightarrow> error + BinaryIO" where
  "SetupcfgMerge_apply P S target_contents template_contents =
     and_then (setup_cfg_parser P template_contents ''setup.cfg.template'')
       (\<lambda>template_parser.
          and_then (parse_target (setup_cfg_parser P) target_contents ''setup.cfg.target'')
            (\<lambda>target.
               and_then (SetupcfgMerge_merge P S template_parser target)
                 (\<lambda>template_parser. Inr (parser_to_pretty_output P template_parser))))"

subsection \<open>Instances for running the model\<close>

text \<open>
  The four \<open>str\<close> functions for text of code points below 256 under the Latin-1 codec
  (one byte for each character, so that decoding never raises and encoding inverts it);
  \<open>casefold\<close> and \<open>lower\<close> map \<open>A\<close>..\<open>Z\<close> to \<open>a\<close>..\<open>z\<close>. On 7-bit text this is
  what UTF-8 and Python's \<open>str\<close> do, and it is used on such inputs only.
\<close>

definition ascii_lower_char :: "char \<Rightarrow> char" where
  "ascii_lower_char c =
     (if CHR ''A'' \<le> c \<and> c \<le> CHR ''Z'' then char_of (of_char c + (32::nat)) else c)"

definition latin1_str :: pystr where
  "latin1_str =
     \<lparr>casefold = map ascii_lower_char,
      lower = map ascii_lower_char,
      decode = (\<lambda>b. Inr b),
      encode = (\<lambda>s. s)\<rparr>"

text \<open>
  Modelled from the spec: the parsers module (\<open>requirement_name\<close>,
  \<open>parse_setupcfg_requirements\<close>, \<open>dump_setupcfg_requirements\<close>, \<open>setup_cfg_parser\<close>,
  \<open>pylintrc_parser\<close>, \<open>parser_to_pretty_output\<close>) is missing from the sources. The
  definitions below follow sections 2, 4.8, 6 and 7 of the specification: INI sections
  \<open>[name]\<close> with \<open>key = value\<close> or \<open>key: value\<close> lines, comment lines dropped, indented
  continuation lines, a parse error on malformed or duplicate entries, and a sorted
  serialisation. They only instantiate the parameters at concrete files.
\<close>

definition is_space :: "char \<Rightarrow> bool" where
  "is_space c = (c = CHR '' '' \<or> c = CHR 0x09)"

definition strip :: "string \<Rightarrow> string" where
  "strip s = rev (dropWhile is_space (rev (dropWhile is_space s)))"

fun split_option :: "string \<Rightarrow> (string \<times> string) option" where
  "split_option [] = None"
| "split_option (c # cs) =
     (if c = CHR ''='' \<or> c = CHR '':'' then Some ([], cs)
      else (case split_option cs of
              None \<Rightarrow> None
            | Some (k, v) \<Rightarrow> Some (c # k, v)))"

fun read_lines ::
  "ConfigParser \<Rightarrow> string option \<Rightarrow> string option \<Rightarrow> string list \<Rightarrow> error + ConfigParser" where
  "read_lines doc sec key [] = Inr doc"
| "read_lines doc sec key (line # rest) =
     (case strip line of
        [] \<Rightarrow> read_lines doc sec key rest
      | c # cs \<Rightarrow>
          if c = CHR ''#'' \<or> c = CHR '';'' then read_lines doc sec key rest
          else if is_space (case line of [] \<Rightarrow> c | l # _ \<Rightarrow> l) then
            (case (sec, key) of
               (Some s, Some k) \<Rightarrow>
                 and_then (getitem2 doc s k)
                   (\<lambda>v. and_then (setitem2 doc s k (v @ ''\<newline>'' @ c # cs))
                     (\<lambda>doc. read_lines doc sec key rest))
             | _ \<Rightarrow> Inl ParseError)
          else if c = CHR ''['' then
            (if cs \<noteq> [] \<and> last cs = CHR '']'' \<and> butlast cs \<noteq> [] then
               (if has_section doc (butlast cs) then Inl ParseError
                else read_lines (add_section doc (butlast cs)) (Some (butlast cs)) None rest)
             else Inl ParseError)
          else
            (case split_option (c # cs) of
               None \<Rightarrow> Inl ParseError
             | Some (k, v) \<Rightarrow>
                 (case sec of
                    None \<Rightarrow> Inl ParseError
                  | Some s \<Rightarrow>
                      (case getitem2 doc s (strip k) of
                         Inr _ \<Rightarrow> Inl ParseError
                       | Inl _ \<Rightarrow>
                           and_then (setitem2 doc s (strip k) (strip v))
                             (\<lambda>doc. read_lines doc sec (Some (strip k)) rest)))))"

definition ini_parser :: "BinaryIO \<Rightarrow> string \<Rightarrow> error + ConfigParser" where
  "ini_parser contents source = read_lines [] None None (splitlines (read contents))"

definition pretty_value :: "string \<Rightarrow> string" where
  "pretty_value v = concat (map (\<lambda>c. if c = CHR 0x0A then [CHR 0x0A, CHR 0x09] else [c]) v)"

definition pretty_section :: "string \<times> section_data \<Rightarrow> string" where
  "pretty_section sec =
     ''['' @ fst sec @ '']\<newline>'' @
     concat (map (\<lambda>kv. fst kv @ '' = '' @ pretty_value (snd kv) @ ''\<newline>'') (sort_key fst (snd sec))) @
     ''\<newline>''"

definition pretty_output :: "ConfigParser \<Rightarrow> BinaryIO" where
  "pretty_output doc = BytesIO (concat (map pretty_section (sort_key fst doc)))"

definition is_name_char :: "char \<Rightarrow> bool" where
  "is_name_char c =
     ((CHR ''a'' \<le> c \<and> c \<le> CHR ''z'') \<or> (CHR ''A'' \<le> c \<and> c \<le> CHR ''Z'') \<or>
      (CHR ''0'' \<le> c \<and> c \<le> CHR ''9'') \<or> c = CHR ''-'' \<or> c = CHR ''_'' \<or> c = CHR ''.'')"

definition spec_requirement_name :: "string \<Rightarrow> string" where
  "spec_requirement_name requirement = takeWhile is_name_char (strip requirement)"

definition spec_parse_requirements :: "string \<Rightarrow> string list" where
  "spec_parse_requirements requirements =
     filter (\<lambda>r. r \<noteq> []) (map strip (split_chr CHR 0x0A requirements))"

definition spec_dump_requirements :: "string list \<Rightarrow> string" where
  "spec_dump_requirements requirements = concat (map (\<lambda>r. ''\<newline>'' @ r) requirements)"

definition spec_parsers :: parsers where
  "spec_parsers =
     \<lparr>requirement_name = spec_requirement_name,
      parse_setupcfg_requirements = spec_parse_requirements,
      dump_setupcfg_requirements = spec_dump_requirements,
      setup_cfg_parser = ini_parser,
      pylintrc_parser = ini_parser,
      parser_to_pretty_output = pretty_output\<rparr>"

section \<open>Properties\<close>

subsection \<open>Lines, joining and sorting\<close>

lemma join_append_empty:
  "join sep (ls @ [[]]) = concat (map (\<lambda>l. l @ sep) ls)"
  by (induction sep ls rule: join.induct) simp_all

lemma splitlines_from_no_break:
  "l \<in> set (splitlines_from acc s) \<Longrightarrow> list_all (\<lambda>c. \<not> is_linebreak c) acc \<Longrightarrow>
     list_all (\<lambda>c. \<not> is_linebreak c) l"
proof (induction acc s rule: splitlines_from.induct)
  case (1 acc)
  then show ?case by (simp split: if_splits)
next
  case (2 acc c cs)
  show ?case
  proof (cases "c = CHR 0x0D")
    case True
    show ?thesis
    proof (cases cs)
      case Nil
      with True 2 show ?thesis by simp
    next
      case (Cons d ds)
      with True 2 show ?thesis by (cases "d = CHR 0x0A") auto
    qed
  next
    case False
    with 2 show ?thesis by (cases "is_linebreak c") auto
  qed
qed

lemma splitlines_no_break:
  "l \<in> set (splitlines s) \<Longrightarrow> list_all (\<lambda>c. \<not> is_linebreak c) l"
  unfolding splitlines_def by (erule splitlines_from_no_break) simp

lemma splitlines_from_line:
  "list_all (\<lambda>c. \<not> is_linebreak c) l \<Longrightarrow>
     splitlines_from acc (l @ CHR 0x0A # rest) = (rev acc @ l) # splitlines_from [] rest"
proof (induction l arbitrary: acc)
  case Nil
  show ?case by (simp add: is_linebreak_def)
next
  case (Cons c l)
  from Cons.prems have c: "\<not> is_linebreak c" and l: "list_all (\<lambda>c. \<not> is_linebreak c) l"
    by simp_all
  from c have "c \<noteq> CHR 0x0D" by (auto simp: is_linebreak_def)
  with c Cons.IH [OF l, of "c # acc"] show ?case by simp
qed

lemma splitlines_concat:
  "list_all (list_all (\<lambda>c. \<not> is_linebreak c)) ls \<Longrightarrow>
     splitlines (concat (map (\<lambda>l. l @ ''\<newline>'') ls)) = ls"
  unfolding splitlines_def
  by (induction ls) (simp_all add: splitlines_from_line)

lemma sort_key_enumeration:
  fixes k :: "'a \<Rightarrow> 'b::linorder"
  assumes "inj k" "distinct xs" "distinct ys" "set xs = set ys"
  shows "sort_key k xs = sort_key k ys"
proof -
  have "map k (sort_key k xs) = map k (sort_key k ys)"
  proof (rule sorted_distinct_set_unique)
    show "sorted (map k (sort_key k xs))" "sorted (map k (sort_key k ys))" by simp_all
    show "distinct (map k (sort_key k xs))" "distinct (map k (sort_key k ys))"
      using assms by (simp_all add: distinct_map inj_on_subset [OF \<open>inj k\<close>])
    show "set (map k (sort_key k xs)) = set (map k (sort_key k ys))"
      using assms by simp
  qed
  with \<open>inj k\<close> show ?thesis by simp
qed

lemma inj_line_key: "inj (line_key S)"
  by (rule injI) (simp add: line_key_def)

lemma sorted_unique_set_cong:
  "set xs = set ys \<Longrightarrow> sorted_unique S xs = sorted_unique S ys"
  unfolding sorted_unique_def
  by (simp add: sort_key_enumeration [OF inj_line_key, of "remdups xs" "remdups ys"])

lemma set_sorted_unique: "set (sorted_unique S xs) = set xs - {[]}"
  by (auto simp: sorted_unique_def)

lemma distinct_sorted_unique: "distinct (sorted_unique S xs)"
  by (simp add: sorted_unique_def)

lemma sorted_sorted_unique: "sorted (map (line_key S) (sorted_unique S xs))"
  unfolding sorted_unique_def by (rule sorted_filter) simp

lemma read_BytesIO: "read (BytesIO b) = b"
  by (simp add: read_def BytesIO_def)

lemma join_lines_nonempty:
  assumes "L \<noteq> []"
  shows "join ''\<newline>'' (L @ ['''']) = join ''\<newline>'' L @ ''\<newline>''"
  using assms by (induction "''\<newline>''" L rule: join.induct) simp_all

lemma join_last_line:
  assumes "L \<noteq> []" "[] \<notin> set L" "list_all (list_all (\<lambda>c. \<not> is_linebreak c)) L"
  shows "join ''\<newline>'' L \<noteq> [] \<and> last (join ''\<newline>'' L) \<noteq> CHR 0x0A"
  using assms
proof (induction "''\<newline>''" L rule: join.induct)
  case 1
  then show ?case by simp
next
  case (2 x)
  then have "x \<noteq> []" "\<not> is_linebreak (last x)"
    by (auto simp: list_all_iff)
  then show ?case by (auto simp: is_linebreak_def)
next
  case (3 x y ys)
  then show ?case by auto
qed

lemma sorted_unique_no_break:
  "list_all (list_all (\<lambda>c. \<not> is_linebreak c)) ls \<Longrightarrow>
   list_all (list_all (\<lambda>c. \<not> is_linebreak c)) (sorted_unique S ls)"
  by (auto simp: list_all_iff set_sorted_unique)

lemma splitlines_all_no_break:
  "list_all (list_all (\<lambda>c. \<not> is_linebreak c)) (splitlines s)"
  using splitlines_no_break by (auto simp: list_all_iff)

text \<open>The lines written by one run, as a function of the input lines.\<close>

lemma output_lines:
  assumes "list_all (list_all (\<lambda>c. \<not> is_linebreak c)) ls" and "L = sorted_unique S ls"
  shows "distinct L \<and> [] \<notin> set L \<and> sorted (map (line_key S) L) \<and>
         set L = set ls - {[]} \<and>
         splitlines (join ''\<newline>'' (L @ [''''])) = L \<and>
         (if L = [] then join ''\<newline>'' (L @ ['''']) = []
          else (\<exists>body. join ''\<newline>'' (L @ ['''']) = body @ ''\<newline>'' \<and> body \<noteq> [] \<and>
                  last body \<noteq> CHR 0x0A))"
proof -
  have nb: "list_all (list_all (\<lambda>c. \<not> is_linebreak c)) L"
    using assms sorted_unique_no_break by simp
  have a: "distinct L" "[] \<notin> set L" "sorted (map (line_key S) L)" "set L = set ls - {[]}"
    using assms(2) by (simp_all add: distinct_sorted_unique set_sorted_unique sorted_sorted_unique)
  have b: "splitlines (join ''\<newline>'' (L @ [''''])) = L"
    using nb by (simp add: join_append_empty splitlines_concat)
  have c: "L \<noteq> [] \<Longrightarrow> \<exists>body. join ''\<newline>'' (L @ ['''']) = body @ ''\<newline>'' \<and> body \<noteq> [] \<and>
                  last body \<noteq> CHR 0x0A"
    using join_lines_nonempty [of L] join_last_line [of L] a(2) nb by blast
  show ?thesis using a b c by simp
qed

subsection \<open>SortedUniqueLines: the lines of the output\<close>

text \<open>
  Claim C5, as amended. For every template and every optional target that decode,
  \<open>SortedUniqueLines.apply()\<close> returns the encoding of a text whose lines \<open>L\<close> are
  exactly the non-empty lines of the two inputs: no duplicates, no empty line, sorted by
  the key (casefolded string, string), and these are the lines that \<open>splitlines\<close> reads
  back from the text. When there is at least one such line the text ends with exactly one
  newline (the character before it is not a newline); when there is none the text is
  empty and has no trailing newline.
\<close>

theorem SortedUniqueLines_output:
  assumes "decode S (read template_contents) = Inr template_text"
    and "(target_contents = None \<and> target_text = []) \<or>
         (\<exists>t. target_contents = Some t \<and> decode S (read t) = Inr target_text)"
  shows "\<exists>L. SortedUniqueLines_apply S target_contents template_contents =
               Inr (BytesIO (encode S (join ''\<newline>'' (L @ ['''']))))
           \<and> distinct L \<and> [] \<notin> set L \<and> sorted (map (line_key S) L)
           \<and> set L = (set (splitlines template_text) \<union> set (splitlines target_text)) - {[]}
           \<and> splitlines (join ''\<newline>'' (L @ [''''])) = L
           \<and> (if L = [] then join ''\<newline>'' (L @ ['''']) = []
              else (\<exists>body. join ''\<newline>'' (L @ ['''']) = body @ ''\<newline>'' \<and> body \<noteq> [] \<and>
                      last body \<noteq> CHR 0x0A))"
proof -
  let ?ls = "splitlines template_text @ splitlines target_text"
  let ?L = "sorted_unique S ?ls"
  have nb: "list_all (list_all (\<lambda>c. \<not> is_linebreak c)) ?ls"
    using splitlines_all_no_break by simp
  have run: "SortedUniqueLines_apply S target_contents template_contents =
               Inr (BytesIO (encode S (join ''\<newline>'' (?L @ ['''']))))"
    using assms by (auto simp: SortedUniqueLines_apply_def splitlines_def)
  from output_lines [OF nb refl, of S] run show ?thesis
    by (intro exI [of _ ?L]) simp
qed

theorem SortedUniqueLines_output_witness:
  "decode latin1_str (read (BytesIO ''b\<newline>A\<newline>\<newline>a\<newline>'')) = Inr ''b\<newline>A\<newline>\<newline>a\<newline>'' \<and>
   decode latin1_str (read (BytesIO ''B\<newline>a'')) = Inr ''B\<newline>a'' \<and>
   (\<exists>L. SortedUniqueLines_apply latin1_str (Some (BytesIO ''B\<newline>a'')) (BytesIO ''b\<newline>A\<newline>\<newline>a\<newline>'') =
          Inr (BytesIO (encode latin1_str (join ''\<newline>'' (L @ ['''']))))
      \<and> distinct L \<and> [] \<notin> set L \<and> sorted (map (line_key latin1_str) L)
      \<and> splitlines (join ''\<newline>'' (L @ [''''])) = L)"
proof -
  have h1: "decode latin1_str (read (BytesIO ''b\<newline>A\<newline>\<newline>a\<newline>'')) = Inr ''b\<newline>A\<newline>\<newline>a\<newline>''"
    by (simp add: latin1_str_def read_BytesIO)
  have h2: "decode latin1_str (read (BytesIO ''B\<newline>a'')) = Inr ''B\<newline>a''"
    by (simp add: latin1_str_def read_BytesIO)
  have h3: "(Some (BytesIO ''B\<newline>a'') = None \<and> ''B\<newline>a'' = []) \<or>
         (\<exists>t. Some (BytesIO ''B\<newline>a'') = Some t \<and> decode latin1_str (read t) = Inr ''B\<newline>a'')"
    using h2 by simp
  from SortedUniqueLines_output [OF h1 h3] h1 h2 show ?thesis by blast
qed

text \<open>
  Claim C5 as stated fails on an empty template without target: the output is empty, so it
  does not end with a newline.
\<close>

theorem SortedUniqueLines_empty_counterexample:
  "SortedUniqueLines_apply latin1_str None (BytesIO []) = Inr \<lparr>buf = [], pos = 0\<rparr>"
  by (simp add: SortedUniqueLines_apply_def latin1_str_def read_def splitlines_def
      sorted_unique_def BytesIO_def)

subsection \<open>SortedUniqueLines: commutative and idempotent\<close>

text \<open>
  Claim C6. For inputs that decode, and a codec whose decoding inverts its encoding:
  swapping template and target gives the same result, and running the strategy again on
  its own output as the target, with the same template, returns that output:
  \<open>apply(apply(T, None), T) = apply(T, None)\<close>.
\<close>

theorem SortedUniqueLines_commutative_idempotent:
  assumes da: "decode S (read a) = Inr ta"
    and db: "decode S (read b) = Inr tb"
    and rt: "\<forall>s. decode S (encode S s) = Inr s"
  shows "SortedUniqueLines_apply S (Some a) b = SortedUniqueLines_apply S (Some b) a \<and>
         (\<exists>out. SortedUniqueLines_apply S None a = Inr out \<and>
                SortedUniqueLines_apply S (Some out) a = Inr out)"
proof
  have "sorted_unique S (splitlines tb @ splitlines ta) =
        sorted_unique S (splitlines ta @ splitlines tb)"
    by (rule sorted_unique_set_cong) auto
  with da db show "SortedUniqueLines_apply S (Some a) b = SortedUniqueLines_apply S (Some b) a"
    by (simp add: SortedUniqueLines_apply_def)
next
  let ?L = "sorted_unique S (splitlines ta)"
  let ?text = "join ''\<newline>'' (?L @ [''''])"
  let ?out = "BytesIO (encode S ?text)"
  have first: "SortedUniqueLines_apply S None a = Inr ?out"
    using da by (simp add: SortedUniqueLines_apply_def)
  have reread: "decode S (read ?out) = Inr ?text"
    using rt by (simp add: read_BytesIO)
  have nb: "list_all (list_all (\<lambda>c. \<not> is_linebreak c)) (splitlines ta)"
    by (rule splitlines_all_no_break)
  have lines: "splitlines ?text = ?L"
    using output_lines [OF nb refl, of S] by simp
  have "sorted_unique S (splitlines ta @ ?L) = ?L"
    by (rule sorted_unique_set_cong) (auto simp: set_sorted_unique)
  with da reread lines have "SortedUniqueLines_apply S (Some ?out) a = Inr ?out"
    by (simp add: SortedUniqueLines_apply_def)
  with first show "\<exists>out. SortedUniqueLines_apply S None a = Inr out \<and>
                SortedUniqueLines_apply S (Some out) a = Inr out"
    by blast
qed

theorem SortedUniqueLines_commutative_idempotent_witness:
  "decode latin1_str (read (BytesIO ''b\<newline>A\<newline>'')) = Inr ''b\<newline>A\<newline>'' \<and>
   decode latin1_str (read (BytesIO ''a\<newline>b'')) = Inr ''a\<newline>b'' \<and>
   (\<forall>s. decode latin1_str (encode latin1_str s) = Inr s) \<and>
   SortedUniqueLines_apply latin1_str (Some (BytesIO ''b\<newline>A\<newline>'')) (BytesIO ''a\<newline>b'') =
     SortedUniqueLines_apply latin1_str (Some (BytesIO ''a\<newline>b'')) (BytesIO ''b\<newline>A\<newline>'') \<and>
   (\<exists>out. SortedUniqueLines_apply latin1_str None (BytesIO ''b\<newline>A\<newline>'') = Inr out \<and>
          SortedUniqueLines_apply latin1_str (Some out) (BytesIO ''b\<newline>A\<newline>'') = Inr out)"
proof -
  have h1: "decode latin1_str (read (BytesIO ''b\<newline>A\<newline>'')) = Inr ''b\<newline>A\<newline>''"
    by (simp add: latin1_str_def read_BytesIO)
  have h2: "decode latin1_str (read (BytesIO ''a\<newline>b'')) = Inr ''a\<newline>b''"
    by (simp add: latin1_str_def read_BytesIO)
  have h3: "\<forall>s. decode latin1_str (encode latin1_str s) = Inr s"
    by (simp add: latin1_str_def)
  from SortedUniqueLines_commutative_idempotent [OF h1 h2 h3] h1 h2 h3 show ?thesis by blast
qed

subsection \<open>TemplateHash: keeping the target, appending the comment\<close>

lemma is_ascii_append [simp]: "is_ascii (xs @ ys) \<longleftrightarrow> is_ascii xs \<and> is_ascii ys"
  by (simp add: is_ascii_def)

lemma is_ascii_Cons: "is_ascii (c # cs) \<longleftrightarrow> of_char c < (128::nat) \<and> is_ascii cs"
  by (simp add: is_ascii_def)

lemma is_ascii_Nil [simp]: "is_ascii []"
  by (simp add: is_ascii_def)

lemma is_ascii_join:
  "is_ascii sep \<Longrightarrow> list_all is_ascii ls \<Longrightarrow> is_ascii (join sep ls)"
  by (induction sep ls rule: join.induct) simp_all

lemma is_ascii_split_chr: "is_ascii s \<Longrightarrow> list_all is_ascii (split_chr sep s)"
  by (induction sep s rule: split_chr.induct)
     (auto simp: is_ascii_Cons split: list.splits)

lemma is_ascii_maybe_add_noqa: "is_ascii l \<Longrightarrow> is_ascii (maybe_add_noqa l)"
  by (simp add: maybe_add_noqa_def is_ascii_Cons)

lemma is_ascii_TemplateHash_comment:
  "is_ascii (commit_url meta) \<Longrightarrow> is_ascii (TemplateHash_comment cls meta)"
  by (cases cls)
     (simp_all add: TemplateHash_comment_def comment_lines_def line_comment_start_def
        is_ascii_Cons)

lemma is_ascii_comment:
  assumes "is_ascii (commit_url meta)"
  shows "is_ascii (comment cls meta)"
proof (cases cls)
  case PythonTemplateHash
  have "list_all is_ascii
          (map maybe_add_noqa (split_chr CHR 0x0A (TemplateHash_comment PythonTemplateHash meta)))"
    using is_ascii_split_chr [OF is_ascii_TemplateHash_comment [OF assms]]
    by (simp add: list_all_iff is_ascii_maybe_add_noqa)
  then show ?thesis
    using PythonTemplateHash
    by (simp add: comment_def PythonTemplateHash_comment_def is_ascii_join is_ascii_Cons)
qed (simp_all add: comment_def is_ascii_TemplateHash_comment [OF assms])

lemma encode_ascii_comment:
  "is_ascii (commit_url meta) \<Longrightarrow> encode_ascii (comment cls meta) = Inr (comment cls meta)"
  by (simp add: encode_ascii_def is_ascii_comment)

lemma dirty_flag_same: "is_git_dirty meta = d \<Longrightarrow> meta\<lparr>is_git_dirty := d\<rparr> = meta"
  by (cases meta) auto

text \<open>
  Claim C4. The comment is encoded with \<open>encode("ascii")\<close>, so the commit URL is taken
  to consist of 7-bit characters, as a URL does. Then: if the target is present, the bytes
  read from it contain the clean variant of the comment block and the metadata is not
  dirty, \<open>apply()\<close> returns the target stream with the same bytes and its position reset
  to 0; if the metadata is dirty, \<open>apply()\<close> returns the template's bytes, a newline and
  the dirty variant of the comment block, whatever the target holds.
\<close>

theorem TemplateHash_apply_keep_or_dirty:
  assumes "is_ascii (commit_url meta)"
  shows "(\<forall>t. target_contents = Some t \<and>
              sublist (comment cls (meta\<lparr>is_git_dirty := False\<rparr>)) (read t) \<and>
              \<not> is_git_dirty meta \<longrightarrow>
            TemplateHash_apply cls target_contents template_contents meta = Inr (t\<lparr>pos := 0\<rparr>)) \<and>
         (is_git_dirty meta \<longrightarrow>
            TemplateHash_apply cls target_contents template_contents meta =
              Inr (BytesIO (read template_contents @ ''\<newline>'' @
                     comment cls (meta\<lparr>is_git_dirty := True\<rparr>))))"
proof (cases "is_git_dirty meta")
  case True
  then have "comment cls (meta\<lparr>is_git_dirty := True\<rparr>) = comment cls meta"
    by (simp add: dirty_flag_same)
  with True encode_ascii_comment [OF assms, of cls] show ?thesis
    by (simp add: TemplateHash_apply_def split: option.splits)
next
  case False
  then have "comment cls (meta\<lparr>is_git_dirty := False\<rparr>) = comment cls meta"
    by (simp add: dirty_flag_same)
  with False encode_ascii_comment [OF assms, of cls] show ?thesis
    by (simp add: TemplateHash_apply_def seek0_def split: option.splits)
qed

theorem TemplateHash_apply_keep_or_dirty_witness:
  "is_ascii ''http://t/c/1'' \<and>
   sublist (comment TemplateHash \<lparr>commit_url = ''http://t/c/1'', is_git_dirty = False\<rparr>)
     (read \<lparr>buf = ''xyza = 1\<newline># Generated by https://github.com/rambler-digital-solutions/scaraplate\<newline># From http://t/c/1\<newline>'', pos = 3\<rparr>) \<and>
   TemplateHash_apply TemplateHash
     (Some \<lparr>buf = ''xyza = 1\<newline># Generated by https://github.com/rambler-digital-solutions/scaraplate\<newline># From http://t/c/1\<newline>'', pos = 3\<rparr>)
     (BytesIO ''a = 2'') \<lparr>commit_url = ''http://t/c/1'', is_git_dirty = False\<rparr> =
     Inr \<lparr>buf = ''xyza = 1\<newline># Generated by https://github.com/rambler-digital-solutions/scaraplate\<newline># From http://t/c/1\<newline>'', pos = 0\<rparr> \<and>
   TemplateHash_apply TemplateHash
     (Some \<lparr>buf = ''xyza = 1\<newline># Generated by https://github.com/rambler-digital-solutions/scaraplate\<newline># From http://t/c/1\<newline>'', pos = 3\<rparr>)
     (BytesIO ''a = 2'') \<lparr>commit_url = ''http://t/c/1'', is_git_dirty = True\<rparr> =
     Inr (BytesIO ''a = 2\<newline># Generated by https://github.com/rambler-digital-solutions/scaraplate\<newline># From (dirty) http://t/c/1\<newline>'')"
proof -
  let ?t = "\<lparr>buf = ''xyza = 1\<newline># Generated by https://github.com/rambler-digital-solutions/scaraplate\<newline># From http://t/c/1\<newline>'', pos = 3\<rparr>"
  have h: "is_ascii ''http://t/c/1''"
    by (simp add: is_ascii_def)
  have c: "comment TemplateHash \<lparr>commit_url = ''http://t/c/1'', is_git_dirty = False\<rparr> =
           ''# Generated by https://github.com/rambler-digital-solutions/scaraplate\<newline># From http://t/c/1\<newline>''"
    by (simp add: comment_def TemplateHash_comment_def comment_lines_def line_comment_start_def)
  have d: "comment TemplateHash \<lparr>commit_url = ''http://t/c/1'', is_git_dirty = True\<rparr> =
           ''# Generated by https://github.com/rambler-digital-solutions/scaraplate\<newline># From (dirty) http://t/c/1\<newline>''"
    by (simp add: comment_def TemplateHash_comment_def comment_lines_def line_comment_start_def)
  have r: "read ?t = ''a = 1\<newline>'' @ ''# Generated by https://github.com/rambler-digital-solutions/scaraplate\<newline># From http://t/c/1\<newline>''"
    by (simp add: read_def)
  have s: "sublist (comment TemplateHash \<lparr>commit_url = ''http://t/c/1'', is_git_dirty = False\<rparr>) (read ?t)"
    unfolding c r by (rule sublist_append_leftI)
  have k: "TemplateHash_apply TemplateHash (Some ?t) (BytesIO ''a = 2'')
             \<lparr>commit_url = ''http://t/c/1'', is_git_dirty = False\<rparr> = Inr (?t\<lparr>pos := 0\<rparr>)"
    using TemplateHash_apply_keep_or_dirty
      [of "\<lparr>commit_url = ''http://t/c/1'', is_git_dirty = False\<rparr>" "Some ?t" TemplateHash "BytesIO ''a = 2''"]
      h s by simp
  have m: "TemplateHash_apply TemplateHash (Some ?t) (BytesIO ''a = 2'')
             \<lparr>commit_url = ''http://t/c/1'', is_git_dirty = True\<rparr> =
           Inr (BytesIO (read (BytesIO ''a = 2'') @ ''\<newline>'' @
             comment TemplateHash \<lparr>commit_url = ''http://t/c/1'', is_git_dirty = True\<rparr>))"
    using TemplateHash_apply_keep_or_dirty
      [of "\<lparr>commit_url = ''http://t/c/1'', is_git_dirty = True\<rparr>" "Some ?t" TemplateHash "BytesIO ''a = 2''"]
      h by simp
  show ?thesis
    using h s k m unfolding d by (simp add: read_BytesIO)
qed

lemma split_chr_line:
  "sep \<notin> set l \<Longrightarrow> split_chr sep (l @ sep # rest) = l # split_chr sep rest"
  by (induction l) auto

lemma length_line1:
  "length ''# Generated by https://github.com/rambler-digital-solutions/scaraplate'' = 70"
  by simp

lemma PythonTemplateHash_comment_lines:
  assumes "CHR 0x0A \<notin> set (commit_url meta)"
  shows "PythonTemplateHash_comment meta =
           ''# Generated by https://github.com/rambler-digital-solutions/scaraplate'' @ ''\<newline>'' @
           maybe_add_noqa (''#'' @ (if is_git_dirty meta then '' From (dirty) '' else '' From '') @
                           commit_url meta) @ ''\<newline>''"
proof -
  let ?l1 = "''# Generated by https://github.com/rambler-digital-solutions/scaraplate''"
  let ?l2 = "''#'' @ (if is_git_dirty meta then '' From (dirty) '' else '' From '') @ commit_url meta"
  have base: "TemplateHash_comment PythonTemplateHash meta = ?l1 @ CHR 0x0A # ?l2 @ CHR 0x0A # []"
    by (simp add: TemplateHash_comment_def comment_lines_def line_comment_start_def)
  have n1: "CHR 0x0A \<notin> set ?l1" by simp
  have n2: "CHR 0x0A \<notin> set ?l2" using assms by simp
  have "split_chr CHR 0x0A (TemplateHash_comment PythonTemplateHash meta) = [?l1, ?l2, []]"
    unfolding base by (simp only: split_chr_line [OF n1] split_chr_line [OF n2] split_chr.simps)
  moreover have "maybe_add_noqa ?l1 = ?l1"
    by (simp add: maybe_add_noqa_def line_length_def)
  moreover have "maybe_add_noqa [] = []"
    by (simp add: maybe_add_noqa_def line_length_def)
  ultimately show ?thesis
    by (simp add: PythonTemplateHash_comment_def del: append.simps)
qed

text \<open>
  Claim C8. Between the template's bytes and the comment block \<open>apply()\<close> writes one
  newline character, whatever the template ends with: there is a blank line between them
  only when the template's bytes end with a newline themselves. The comment is encoded
  with \<open>encode("ascii")\<close>, so the commit URL is taken to consist of 7-bit characters, and
  for the Python class, which splits the block into lines again, to hold no newline.
  Then: whenever the resync-skip condition does not hold, \<open>apply()\<close> returns the
  template's bytes, one newline and the comment block; the block is \<open>line1\<close>, a newline,
  \<open>line2\<close>, a newline, where \<open>line1\<close> is the token followed by
  \<open>Generated by https://github.com/rambler-digital-solutions/scaraplate\<close>, \<open>line2\<close> is
  the token followed by \<open>From\<close> or \<open>From (dirty)\<close> and the URL, the token is \<open>//\<close> for
  the Groovy class and \<open>#\<close> otherwise, and in the Python class a line of 87 or more
  characters gets \<open>  # noqa\<close> appended (the first line has 70).
\<close>

theorem TemplateHash_apply_comment_format:
  assumes "is_ascii (commit_url meta)"
    and "cls = PythonTemplateHash \<Longrightarrow> CHR 0x0A \<notin> set (commit_url meta)"
    and "\<not> (\<exists>t. target_contents = Some t \<and> sublist (comment cls meta) (read t) \<and>
               \<not> is_git_dirty meta)"
  shows "let token = (if cls = GroovyTemplateHash then ''//'' else ''#'');
             line1 = token @ '' Generated by https://github.com/rambler-digital-solutions/scaraplate'';
             from_line = token @ (if is_git_dirty meta then '' From (dirty) '' else '' From '') @
                         commit_url meta;
             line2 = (if cls = PythonTemplateHash \<and> length from_line \<ge> 87
                      then from_line @ ''  # noqa'' else from_line)
         in comment cls meta = line1 @ ''\<newline>'' @ line2 @ ''\<newline>'' \<and>
            TemplateHash_apply cls target_contents template_contents meta =
              Inr (BytesIO (read template_contents @ ''\<newline>'' @ line1 @ ''\<newline>'' @ line2 @ ''\<newline>''))"
proof -
  have run: "TemplateHash_apply cls target_contents template_contents meta =
               Inr (BytesIO (read template_contents @ ''\<newline>'' @ comment cls meta))"
    using encode_ascii_comment [OF assms(1), of cls] assms(3)
    by (auto simp: TemplateHash_apply_def split: option.splits)
  have fmt: "comment cls meta =
     (if cls = GroovyTemplateHash then ''//'' else ''#'') @
       '' Generated by https://github.com/rambler-digital-solutions/scaraplate'' @ ''\<newline>'' @
     (if cls = PythonTemplateHash \<and>
         length ((if cls = GroovyTemplateHash then ''//'' else ''#'') @
                 (if is_git_dirty meta then '' From (dirty) '' else '' From '') @ commit_url meta) \<ge> 87
      then ((if cls = GroovyTemplateHash then ''//'' else ''#'') @
                 (if is_git_dirty meta then '' From (dirty) '' else '' From '') @ commit_url meta) @ ''  # noqa''
      else ((if cls = GroovyTemplateHash then ''//'' else ''#'') @
                 (if is_git_dirty meta then '' From (dirty) '' else '' From '') @ commit_url meta)) @ ''\<newline>''"
  proof (cases cls)
    case TemplateHash
    then show ?thesis
      by (simp add: comment_def TemplateHash_comment_def comment_lines_def line_comment_start_def)
  next
    case PythonTemplateHash
    then show ?thesis
      using PythonTemplateHash_comment_lines [OF assms(2) [OF PythonTemplateHash]]
      by (simp add: comment_def maybe_add_noqa_def line_length_def)
  next
    case GroovyTemplateHash
    then show ?thesis
      by (simp add: comment_def TemplateHash_comment_def comment_lines_def line_comment_start_def)
  qed
  show ?thesis
    unfolding Let_def run using fmt by simp
qed

theorem TemplateHash_apply_comment_format_witness:
  "is_ascii ''https://github.com/rambler-digital-solutions/scaraplate-example-template/commit/1111111111111111111111111111111111111111'' \<and>
   CHR 0x0A \<notin> set ''https://github.com/rambler-digital-solutions/scaraplate-example-template/commit/1111111111111111111111111111111111111111'' \<and>
   \<not> (\<exists>t. Some (BytesIO ''x = 0'') = Some t \<and>
          sublist (comment PythonTemplateHash \<lparr>commit_url = ''https://github.com/rambler-digital-solutions/scaraplate-example-template/commit/1111111111111111111111111111111111111111'', is_git_dirty = True\<rparr>) (read t) \<and>
          \<not> is_git_dirty \<lparr>commit_url = ''https://github.com/rambler-digital-solutions/scaraplate-example-template/commit/1111111111111111111111111111111111111111'', is_git_dirty = True\<rparr>) \<and>
   TemplateHash_apply PythonTemplateHash (Some (BytesIO ''x = 0'')) (BytesIO ''x = 1\<newline>'')
     \<lparr>commit_url = ''https://github.com/rambler-digital-solutions/scaraplate-example-template/commit/1111111111111111111111111111111111111111'', is_git_dirty = True\<rparr> =
     Inr (BytesIO ''x = 1\<newline>\<newline># Generated by https://github.com/rambler-digital-solutions/scaraplate\<newline># From (dirty) https://github.com/rambler-digital-solutions/scaraplate-example-template/commit/1111111111111111111111111111111111111111  # noqa\<newline>'')"
proof -
  let ?m = "\<lparr>commit_url = ''https://github.com/rambler-digital-solutions/scaraplate-example-template/commit/1111111111111111111111111111111111111111'', is_git_dirty = True\<rparr>"
  have h1: "is_ascii (commit_url ?m)"
    by (simp add: is_ascii_def)
  have h2: "CHR 0x0A \<notin> set (commit_url ?m)"
    by simp
  have h3: "\<not> (\<exists>t. Some (BytesIO ''x = 0'') = Some t \<and>
          sublist (comment PythonTemplateHash ?m) (read t) \<and> \<not> is_git_dirty ?m)"
    by simp
  from TemplateHash_apply_comment_format
         [of ?m PythonTemplateHash "Some (BytesIO ''x = 0'')" "BytesIO ''x = 1\<newline>''"] h1 h2 h3
  show ?thesis
    by (simp add: Let_def read_BytesIO)
qed

text \<open>
  A template whose last line is not ended by a newline: the comment block starts on the
  very next line, with no blank line in between.
\<close>

theorem TemplateHash_apply_no_blank_line_counterexample:
  "TemplateHash_apply TemplateHash None (BytesIO ''x = 1'')
     \<lparr>commit_url = ''http://t/c/1'', is_git_dirty = False\<rparr> =
   Inr (BytesIO ''x = 1\<newline># Generated by https://github.com/rambler-digital-solutions/scaraplate\<newline># From http://t/c/1\<newline>'')"
  by (simp add: TemplateHash_apply_def comment_def TemplateHash_comment_def comment_lines_def
        line_comment_start_def encode_ascii_def is_ascii_def read_BytesIO)

subsection \<open>Documents: lookups after an update\<close>

lemma getitem2_conv:
  "getitem2 p s k =
     (case map_of p s of
        None \<Rightarrow> Inl KeyError
      | Some d \<Rightarrow> (case map_of d k of None \<Rightarrow> Inl KeyError | Some v \<Rightarrow> Inr v))"
  by (simp add: getitem2_def getitem_def split: option.splits)

lemma getitem2_error: "getitem2 p s k = Inl e \<Longrightarrow> e = KeyError"
  by (auto simp: getitem2_conv split: option.splits)

lemma map_of_ensure_section:
  "map_of (ensure_section p s) s' =
     (if s' = s \<and> map_of p s = None then Some [] else map_of p s')"
  by (auto simp: ensure_section_def has_section_def add_section_def map_add_def
           split: option.splits)

lemma setitem2_ensure_section:
  "setitem2 (ensure_section p s) s k v =
     Inr (AList.update s
            (AList.update k v (case map_of p s of None \<Rightarrow> [] | Some d \<Rightarrow> d))
            (ensure_section p s))"
  by (simp add: setitem2_def getitem_def map_of_ensure_section split: option.splits)

lemma map_of_setitem2_ensure_all:
  "setitem2 (ensure_section p s) s k v = Inr r \<Longrightarrow>
   map_of r s' =
     (if s' = s
      then Some (AList.update k v (case map_of p s of None \<Rightarrow> [] | Some d \<Rightarrow> d))
      else map_of p s')"
  by (auto simp: setitem2_ensure_section update_conv' map_of_ensure_section)

lemma getitem2_setitem2_ensure:
  assumes "setitem2 (ensure_section p s) s k v = Inr r"
  shows "getitem2 r s' k' = (if s' = s \<and> k' = k then Inr v else getitem2 p s' k')"
proof (cases "s' = s")
  case False
  then show ?thesis
    by (simp add: getitem2_conv map_of_setitem2_ensure_all [OF assms])
next
  case True
  then show ?thesis
    by (cases "map_of p s")
       (simp_all add: getitem2_conv map_of_setitem2_ensure_all [OF assms] update_conv')
qed

lemma map_of_setitem2_ensure:
  "setitem2 (ensure_section p s) s k v = Inr r \<Longrightarrow> s' \<noteq> s \<Longrightarrow> map_of r s' = map_of p s'"
  by (simp add: map_of_setitem2_ensure_all)

lemma maybe_preserve_key_result:
  "\<exists>r. maybe_preserve_key tpl tgt s k = Inr r \<and>
       (\<forall>s' k'. getitem2 r s' k' =
          (if s' = s \<and> k' = k
           then (case getitem2 tgt s k of Inr v \<Rightarrow> Inr v | Inl e \<Rightarrow> getitem2 tpl s k)
           else getitem2 tpl s' k')) \<and>
       (\<forall>s'. s' \<noteq> s \<longrightarrow> map_of r s' = map_of tpl s')"
proof (cases "getitem2 tgt s k")
  case (Inl e)
  then have "e = KeyError" by (rule getitem2_error)
  with Inl show ?thesis by (simp add: maybe_preserve_key_def)
next
  case (Inr v)
  obtain r where r: "setitem2 (ensure_section tpl s) s k v = Inr r"
    by (simp add: setitem2_ensure_section)
  from Inr r have "maybe_preserve_key tpl tgt s k = Inr r"
    by (simp add: maybe_preserve_key_def)
  moreover have "\<forall>s' k'. getitem2 r s' k' =
          (if s' = s \<and> k' = k then Inr v else getitem2 tpl s' k')"
    using getitem2_setitem2_ensure [OF r] by simp
  moreover have "\<forall>s'. s' \<noteq> s \<longrightarrow> map_of r s' = map_of tpl s'"
    using map_of_setitem2_ensure [OF r] by simp
  ultimately show ?thesis using Inr by simp
qed

subsection \<open>PylintrcMerge: the two preserved keys and the frame\<close>

lemma PylintrcMerge_merge_result:
  "\<exists>r. PylintrcMerge_merge tpl target = Inr r \<and>
       (\<forall>s k. getitem2 r s k =
          (if s = ''TYPECHECK'' \<and> (k = ''ignored-modules'' \<or> k = ''ignored-classes'')
           then (case target of
                   None \<Rightarrow> getitem2 tpl s k
                 | Some tgt \<Rightarrow>
                     (case getitem2 tgt s k of Inr v \<Rightarrow> Inr v | Inl e \<Rightarrow> getitem2 tpl s k))
           else getitem2 tpl s k)) \<and>
       (\<forall>s. s \<noteq> ''TYPECHECK'' \<longrightarrow> map_of r s = map_of tpl s) \<and>
       (target = None \<longrightarrow> r = tpl)"
proof (cases target)
  case None
  then show ?thesis by (simp add: PylintrcMerge_merge_def)
next
  case (Some tgt)
  obtain r1 where r1: "maybe_preserve_key tpl tgt ''TYPECHECK'' ''ignored-modules'' = Inr r1"
    and g1: "\<forall>s' k'. getitem2 r1 s' k' =
          (if s' = ''TYPECHECK'' \<and> k' = ''ignored-modules''
           then (case getitem2 tgt ''TYPECHECK'' ''ignored-modules'' of Inr v \<Rightarrow> Inr v
                 | Inl e \<Rightarrow> getitem2 tpl ''TYPECHECK'' ''ignored-modules'')
           else getitem2 tpl s' k')"
    and m1: "\<forall>s'. s' \<noteq> ''TYPECHECK'' \<longrightarrow> map_of r1 s' = map_of tpl s'"
    using maybe_preserve_key_result [of tpl tgt "''TYPECHECK''" "''ignored-modules''"] by blast
  obtain r2 where r2: "maybe_preserve_key r1 tgt ''TYPECHECK'' ''ignored-classes'' = Inr r2"
    and g2: "\<forall>s' k'. getitem2 r2 s' k' =
          (if s' = ''TYPECHECK'' \<and> k' = ''ignored-classes''
           then (case getitem2 tgt ''TYPECHECK'' ''ignored-classes'' of Inr v \<Rightarrow> Inr v
                 | Inl e \<Rightarrow> getitem2 r1 ''TYPECHECK'' ''ignored-classes'')
           else getitem2 r1 s' k')"
    and m2: "\<forall>s'. s' \<noteq> ''TYPECHECK'' \<longrightarrow> map_of r2 s' = map_of r1 s'"
    using maybe_preserve_key_result [of r1 tgt "''TYPECHECK''" "''ignored-classes''"] by blast
  have "PylintrcMerge_merge tpl target = Inr r2"
    using Some r1 r2 by (simp add: PylintrcMerge_merge_def and_then_def)
  moreover have "\<forall>s k. getitem2 r2 s k =
          (if s = ''TYPECHECK'' \<and> (k = ''ignored-modules'' \<or> k = ''ignored-classes'')
           then (case getitem2 tgt s k of Inr v \<Rightarrow> Inr v | Inl e \<Rightarrow> getitem2 tpl s k)
           else getitem2 tpl s k)"
    by (auto simp: g1 g2 split: sum.splits)
  moreover have "\<forall>s. s \<noteq> ''TYPECHECK'' \<longrightarrow> map_of r2 s = map_of tpl s"
    using m1 m2 by simp
  ultimately show ?thesis using Some by simp
qed


text \<open>
  Claim C7. With both documents parsed, \<open>PylintrcMerge.apply()\<close> returns the
  serialisation of a document \<open>result\<close> in which the keys \<open>ignored-modules\<close> and
  \<open>ignored-classes\<close> of section \<open>TYPECHECK\<close> hold the target's value when the target
  has the key and the template's own value (or no value) otherwise; every other key of
  every section reads as in the template document, every section other than \<open>TYPECHECK\<close>
  is the template's section as a whole, and without a target the result is the template
  document.
\<close>

theorem PylintrcMerge_apply_frame:
  assumes "pylintrc_parser P template_contents ''.pylintrc.template'' = Inr template_parser"
      and "parse_target (pylintrc_parser P) target_contents ''.pylintrc.target'' = Inr target"
  shows "\<exists>result.
           PylintrcMerge_apply P target_contents template_contents =
             Inr (parser_to_pretty_output P result) \<and>
           (\<forall>section key. getitem2 result section key =
              (if section = ''TYPECHECK'' \<and>
                  (key = ''ignored-modules'' \<or> key = ''ignored-classes'')
               then (case target of
                       None \<Rightarrow> getitem2 template_parser section key
                     | Some target_parser \<Rightarrow>
                         (case getitem2 target_parser section key of
                            Inr v \<Rightarrow> Inr v
                          | Inl e \<Rightarrow> getitem2 template_parser section key))
               else getitem2 template_parser section key)) \<and>
           (\<forall>section. section \<noteq> ''TYPECHECK'' \<longrightarrow>
              map_of result section = map_of template_parser section) \<and>
           (target = None \<longrightarrow> result = template_parser)"
proof -
  obtain r where m: "PylintrcMerge_merge template_parser target = Inr r"
    and rest: "(\<forall>s k. getitem2 r s k =
          (if s = ''TYPECHECK'' \<and> (k = ''ignored-modules'' \<or> k = ''ignored-classes'')
           then (case target of
                   None \<Rightarrow> getitem2 template_parser s k
                 | Some tgt \<Rightarrow>
                     (case getitem2 tgt s k of Inr v \<Rightarrow> Inr v
                      | Inl e \<Rightarrow> getitem2 template_parser s k))
           else getitem2 template_parser s k)) \<and>
       (\<forall>s. s \<noteq> ''TYPECHECK'' \<longrightarrow> map_of r s = map_of template_parser s) \<and>
       (target = None \<longrightarrow> r = template_parser)"
    using PylintrcMerge_merge_result [of template_parser target] by blast
  have "PylintrcMerge_apply P target_contents template_contents =
          Inr (parser_to_pretty_output P r)"
    using assms m by (simp add: PylintrcMerge_apply_def and_then_def)
  with rest show ?thesis by blast
qed

lemma pylintrc_template_example: "pylintrc_parser spec_parsers
       (BytesIO ''[TYPECHECK]\<newline>ignored-modules=a,b\<newline>ignored-classes=X\<newline>[MASTER]\<newline>jobs=1\<newline>'')
       ''.pylintrc.template'' =
     Inr [(''TYPECHECK'', [(''ignored-modules'', ''a,b''), (''ignored-classes'', ''X'')]),
          (''MASTER'', [(''jobs'', ''1'')])]"
  by code_simp

lemma pylintrc_target_example: "parse_target (pylintrc_parser spec_parsers)
       (Some (BytesIO ''[TYPECHECK]\<newline>ignored-modules=c,d\<newline>[MASTER]\<newline>jobs=4\<newline>''))
       ''.pylintrc.target'' =
     Inr (Some [(''TYPECHECK'', [(''ignored-modules'', ''c,d'')]), (''MASTER'', [(''jobs'', ''4'')])])"
  by code_simp

theorem PylintrcMerge_apply_frame_witness:
  "pylintrc_parser spec_parsers
       (BytesIO ''[TYPECHECK]\<newline>ignored-modules=a,b\<newline>ignored-classes=X\<newline>[MASTER]\<newline>jobs=1\<newline>'')
       ''.pylintrc.template'' =
     Inr [(''TYPECHECK'', [(''ignored-modules'', ''a,b''), (''ignored-classes'', ''X'')]),
          (''MASTER'', [(''jobs'', ''1'')])] \<and>
   parse_target (pylintrc_parser spec_parsers)
       (Some (BytesIO ''[TYPECHECK]\<newline>ignored-modules=c,d\<newline>[MASTER]\<newline>jobs=4\<newline>''))
       ''.pylintrc.target'' =
     Inr (Some [(''TYPECHECK'', [(''ignored-modules'', ''c,d'')]), (''MASTER'', [(''jobs'', ''4'')])]) \<and>
   (\<exists>result.
      PylintrcMerge_apply spec_parsers
        (Some (BytesIO ''[TYPECHECK]\<newline>ignored-modules=c,d\<newline>[MASTER]\<newline>jobs=4\<newline>''))
        (BytesIO ''[TYPECHECK]\<newline>ignored-modules=a,b\<newline>ignored-classes=X\<newline>[MASTER]\<newline>jobs=1\<newline>'') =
        Inr (parser_to_pretty_output spec_parsers result) \<and>
      getitem2 result ''TYPECHECK'' ''ignored-modules'' = Inr ''c,d'' \<and>
      getitem2 result ''TYPECHECK'' ''ignored-classes'' = Inr ''X'' \<and>
      getitem2 result ''MASTER'' ''jobs'' = Inr ''1'' \<and>
      map_of result ''MASTER'' = Some [(''jobs'', ''1'')])"
proof -
  let ?tpl = "[(''TYPECHECK'', [(''ignored-modules'', ''a,b''), (''ignored-classes'', ''X'')]),
          (''MASTER'', [(''jobs'', ''1'')])]"
  let ?tgt = "[(''TYPECHECK'', [(''ignored-modules'', ''c,d'')]), (''MASTER'', [(''jobs'', ''4'')])]"
  have g: "getitem2 ?tgt ''TYPECHECK'' ''ignored-modules'' = Inr ''c,d''"
          "getitem2 ?tgt ''TYPECHECK'' ''ignored-classes'' = Inl KeyError"
          "getitem2 ?tpl ''TYPECHECK'' ''ignored-classes'' = Inr ''X''"
          "getitem2 ?tpl ''MASTER'' ''jobs'' = Inr ''1''"
    by (simp_all add: getitem2_def getitem_def)
  show ?thesis
    using PylintrcMerge_apply_frame [OF pylintrc_template_example pylintrc_target_example]
      pylintrc_template_example pylintrc_target_example g by auto
qed

subsection \<open>SetupcfgMerge: the dependency-list merge\<close>

lemma append_wanted_filter:
  "append_wanted name_of E wanted rs = wanted @ filter (\<lambda>r. name_of r \<notin> E) rs"
  by (induction rs arbitrary: wanted) simp_all

lemma merged_requirements_conv:
  "merged_requirements P S template_requirements target_requirements =
     sort_key (casefold S)
       (target_requirements @
        filter (\<lambda>r. normalize_requirement P S r \<notin>
                     normalize_requirement P S ` set target_requirements)
          template_requirements)"
  by (simp add: merged_requirements_def append_wanted_filter)


lemma merge_requirements_result:
  assumes "parse_requirements P tpl s k = Inr treqs"
      and "(case target of Some tgt \<Rightarrow> parse_requirements P tgt s k | None \<Rightarrow> Inr []) = Inr greqs"
  shows "\<exists>r. merge_requirements P S tpl target s k = Inr r \<and>
           (\<forall>s' k'. getitem2 r s' k' =
              (if s' = s \<and> k' = k
               then Inr (dump_setupcfg_requirements P (merged_requirements P S treqs greqs))
               else getitem2 tpl s' k')) \<and>
           (\<forall>s'. s' \<noteq> s \<longrightarrow> map_of r s' = map_of tpl s')"
proof -
  let ?v = "dump_setupcfg_requirements P (merged_requirements P S treqs greqs)"
  obtain r where r: "setitem2 (ensure_section tpl s) s k ?v = Inr r"
    by (simp add: setitem2_ensure_section)
  have "merge_requirements P S tpl target s k = Inr r"
    using assms r by (simp add: merge_requirements_def and_then_def)
  moreover have "\<forall>s' k'. getitem2 r s' k' =
          (if s' = s \<and> k' = k then Inr ?v else getitem2 tpl s' k')"
    using getitem2_setitem2_ensure [OF r] by simp
  moreover have "\<forall>s'. s' \<noteq> s \<longrightarrow> map_of r s' = map_of tpl s'"
    using map_of_setitem2_ensure [OF r] by simp
  ultimately show ?thesis by blast
qed

text \<open>
  Claim C1. \<open>_merge_requirements\<close>, for any section and key (the code calls it for
  \<open>options.extras_require\<close>/\<open>develop\<close> and for \<open>options\<close>/\<open>install_requires\<close>), with
  the normalized name of a specifier being \<open>requirement_name(requirement).lower()\<close>: the
  call succeeds and the key of the result holds the serialisation of the list \<open>merged\<close>,
  which is the target's list followed by the template's specifiers whose normalized name
  is not the normalized name of a target specifier, sorted by \<open>str.casefold\<close> of the whole
  specifier. So \<open>merged\<close> is sorted, it has the target's specifiers and those template
  specifiers and nothing else (as multisets), and a template specifier whose normalized
  name occurs in the target is in \<open>merged\<close> only if the target holds the same text.
\<close>

theorem merge_requirements_target_wins:
  assumes "parse_requirements P template_parser section key = Inr template_requirements"
      and "(case target of
              Some target_parser \<Rightarrow> parse_requirements P target_parser section key
            | None \<Rightarrow> Inr []) = Inr target_requirements"
  shows "\<exists>result merged.
           merge_requirements P S template_parser target section key = Inr result \<and>
           getitem2 result section key = Inr (dump_setupcfg_requirements P merged) \<and>
           merged =
             sort_key (casefold S)
               (target_requirements @
                filter (\<lambda>r. normalize_requirement P S r \<notin>
                             normalize_requirement P S ` set target_requirements)
                  template_requirements) \<and>
           sorted (map (casefold S) merged) \<and>
           mset merged =
             mset target_requirements +
             filter_mset (\<lambda>r. normalize_requirement P S r \<notin>
                                normalize_requirement P S ` set target_requirements)
               (mset template_requirements) \<and>
           (\<forall>r \<in> set template_requirements.
              normalize_requirement P S r \<in>
                normalize_requirement P S ` set target_requirements \<longrightarrow>
              (r \<in> set merged \<longleftrightarrow> r \<in> set target_requirements))"
proof -
  let ?merged = "merged_requirements P S template_requirements target_requirements"
  obtain r where r: "merge_requirements P S template_parser target section key = Inr r"
    and g: "\<forall>s' k'. getitem2 r s' k' =
              (if s' = section \<and> k' = key
               then Inr (dump_setupcfg_requirements P ?merged)
               else getitem2 template_parser s' k')"
    using merge_requirements_result [OF assms, of S] by blast
  have "getitem2 r section key = Inr (dump_setupcfg_requirements P ?merged)"
    using g by simp
  moreover have "sorted (map (casefold S) ?merged)"
    by (simp add: merged_requirements_conv)
  moreover have "mset ?merged =
             mset target_requirements +
             filter_mset (\<lambda>r. normalize_requirement P S r \<notin>
                                normalize_requirement P S ` set target_requirements)
               (mset template_requirements)"
    by (simp add: merged_requirements_conv)
  moreover have "\<forall>r \<in> set template_requirements.
              normalize_requirement P S r \<in>
                normalize_requirement P S ` set target_requirements \<longrightarrow>
              (r \<in> set ?merged \<longleftrightarrow> r \<in> set target_requirements)"
    by (auto simp: merged_requirements_conv)
  ultimately show ?thesis
    using r merged_requirements_conv [of P S template_requirements target_requirements]
    by blast
qed

text \<open>
  Claim C9. Names are looked up in the set of the target's normalized names only, which
  is fixed before the loop: every specifier whose normalized name is not a target's name
  occurs in the merged list as often as it occurs in the template's list. So of two
  template specifiers with one normalized name that the target lacks, both are kept.
\<close>

theorem merge_requirements_template_duplicates:
  assumes "parse_requirements P template_parser section key = Inr template_requirements"
      and "(case target of
              Some target_parser \<Rightarrow> parse_requirements P target_parser section key
            | None \<Rightarrow> Inr []) = Inr target_requirements"
  shows "\<exists>result merged.
           merge_requirements P S template_parser target section key = Inr result \<and>
           getitem2 result section key = Inr (dump_setupcfg_requirements P merged) \<and>
           merged = merged_requirements P S template_requirements target_requirements \<and>
           (\<forall>r. normalize_requirement P S r \<notin>
                  normalize_requirement P S ` set target_requirements \<longrightarrow>
                count (mset merged) r = count (mset template_requirements) r)"
proof -
  let ?merged = "merged_requirements P S template_requirements target_requirements"
  obtain res where res: "merge_requirements P S template_parser target section key = Inr res"
    and g: "\<forall>s' k'. getitem2 res s' k' =
              (if s' = section \<and> k' = key
               then Inr (dump_setupcfg_requirements P ?merged)
               else getitem2 template_parser s' k')"
    using merge_requirements_result [OF assms(1,2), of S] by blast
  have "getitem2 res section key = Inr (dump_setupcfg_requirements P ?merged)"
    using g by simp
  moreover have "count (mset ?merged) r = count (mset template_requirements) r"
    if "normalize_requirement P S r \<notin> normalize_requirement P S ` set target_requirements"
    for r
  proof -
    from that have "r \<notin> set target_requirements" by auto
    with that show ?thesis
      by (simp add: merged_requirements_conv count_eq_zero_iff)
  qed
  ultimately show ?thesis using res by blast
qed

lemma requirements_example_template:
  "parse_requirements spec_parsers
     [(''options'', [(''install_requires'', ''\<newline>foo>=1.0\<newline>bar==2.0'')])]
     ''options'' ''install_requires'' = Inr [''foo>=1.0'', ''bar==2.0'']"
  by code_simp

lemma requirements_example_target:
  "(case Some [(''options'', [(''install_requires'', ''\<newline>foo==1.5'')])] of
      Some target_parser \<Rightarrow>
        parse_requirements spec_parsers target_parser ''options'' ''install_requires''
    | None \<Rightarrow> Inr []) = Inr [''foo==1.5'']"
  by code_simp

lemma requirements_example_merged:
  "dump_setupcfg_requirements spec_parsers
     (sort_key (casefold latin1_str)
        ([''foo==1.5''] @
         filter (\<lambda>r. normalize_requirement spec_parsers latin1_str r \<notin>
                      normalize_requirement spec_parsers latin1_str ` set [''foo==1.5''])
           [''foo>=1.0'', ''bar==2.0''])) = ''\<newline>bar==2.0\<newline>foo==1.5''"
  by code_simp

theorem merge_requirements_target_wins_witness:
  "parse_requirements spec_parsers
     [(''options'', [(''install_requires'', ''\<newline>foo>=1.0\<newline>bar==2.0'')])]
     ''options'' ''install_requires'' = Inr [''foo>=1.0'', ''bar==2.0''] \<and>
   parse_requirements spec_parsers
     [(''options'', [(''install_requires'', ''\<newline>foo==1.5'')])]
     ''options'' ''install_requires'' = Inr [''foo==1.5''] \<and>
   (\<exists>result.
      merge_requirements spec_parsers latin1_str
        [(''options'', [(''install_requires'', ''\<newline>foo>=1.0\<newline>bar==2.0'')])]
        (Some [(''options'', [(''install_requires'', ''\<newline>foo==1.5'')])])
        ''options'' ''install_requires'' = Inr result \<and>
      getitem2 result ''options'' ''install_requires'' = Inr ''\<newline>bar==2.0\<newline>foo==1.5'')"
  using merge_requirements_target_wins
          [OF requirements_example_template requirements_example_target, of latin1_str]
        requirements_example_template requirements_example_target requirements_example_merged
  by auto

lemma duplicates_example_template:
  "parse_requirements spec_parsers
     [(''options'', [(''install_requires'', ''\<newline>foo>=1.0\<newline>Foo<3'')])]
     ''options'' ''install_requires'' = Inr [''foo>=1.0'', ''Foo<3'']"
  by code_simp

lemma duplicates_example_target:
  "(case Some [(''options'', [(''install_requires'', ''\<newline>bar'')])] of
      Some target_parser \<Rightarrow>
        parse_requirements spec_parsers target_parser ''options'' ''install_requires''
    | None \<Rightarrow> Inr []) = Inr [''bar'']"
  by code_simp

lemma duplicates_example_names:
  "normalize_requirement spec_parsers latin1_str ''foo>=1.0'' = ''foo'' \<and>
   normalize_requirement spec_parsers latin1_str ''Foo<3'' = ''foo'' \<and>
   normalize_requirement spec_parsers latin1_str ''bar'' = ''bar''"
  by code_simp

theorem merge_requirements_template_duplicates_witness:
  "parse_requirements spec_parsers
     [(''options'', [(''install_requires'', ''\<newline>foo>=1.0\<newline>Foo<3'')])]
     ''options'' ''install_requires'' = Inr [''foo>=1.0'', ''Foo<3''] \<and>
   parse_requirements spec_parsers
     [(''options'', [(''install_requires'', ''\<newline>bar'')])]
     ''options'' ''install_requires'' = Inr [''bar''] \<and>
   normalize_requirement spec_parsers latin1_str ''foo>=1.0'' =
     normalize_requirement spec_parsers latin1_str ''Foo<3'' \<and>
   (\<exists>result merged.
      merge_requirements spec_parsers latin1_str
        [(''options'', [(''install_requires'', ''\<newline>foo>=1.0\<newline>Foo<3'')])]
        (Some [(''options'', [(''install_requires'', ''\<newline>bar'')])])
        ''options'' ''install_requires'' = Inr result \<and>
      getitem2 result ''options'' ''install_requires'' =
        Inr (dump_setupcfg_requirements spec_parsers merged) \<and>
      count (mset merged) ''foo>=1.0'' = 1 \<and> count (mset merged) ''Foo<3'' = 1)"
proof -
  from merge_requirements_template_duplicates
         [OF duplicates_example_template duplicates_example_target, of latin1_str]
  obtain result merged where
    r: "merge_requirements spec_parsers latin1_str
        [(''options'', [(''install_requires'', ''\<newline>foo>=1.0\<newline>Foo<3'')])]
        (Some [(''options'', [(''install_requires'', ''\<newline>bar'')])])
        ''options'' ''install_requires'' = Inr result"
    and g: "getitem2 result ''options'' ''install_requires'' =
        Inr (dump_setupcfg_requirements spec_parsers merged)"
    and c: "\<forall>r. normalize_requirement spec_parsers latin1_str r \<notin>
                  normalize_requirement spec_parsers latin1_str ` set [''bar''] \<longrightarrow>
                count (mset merged) r = count (mset [''foo>=1.0'', ''Foo<3'']) r"
    by blast
  have "count (mset merged) ''foo>=1.0'' = 1" "count (mset merged) ''Foo<3'' = 1"
    using c duplicates_example_names by simp_all
  with r g show ?thesis
    using duplicates_example_template duplicates_example_target duplicates_example_names
    by auto
qed

subsection \<open>SetupcfgMerge: sections out of reach of the preservation, and the two requirement keys\<close>



























subsection \<open>SetupcfgMerge: a target section that the template lacks, and the unescaped dot\<close>

text \<open>
  Claim C3. \<open>_maybe_preserve_sections\<close> reads \<open>template_parser[section]\<close> when it is
  given a pattern of keys to restore, and the template need not have the section. For the
  template \<open>[metadata] name = x\<close> and the target \<open>[options.extras_require] develop = pytest\<close>,
  both read without a parse error, the preservation step, the merge and \<open>apply()\<close> raise
  \<open>KeyError\<close>. \<open>_maybe_preserve_key\<close> and \<open>_parse_requirements\<close> catch the same error
  where they look up a section.
\<close>

theorem SetupcfgMerge_apply_KeyError:
  "preserve_from_target
     [(''metadata'', [(''name'', ''x'')])]
     [(''options.extras_require'', [(''develop'', ''pytest'')])] = Inl KeyError \<and>
   SetupcfgMerge_merge spec_parsers latin1_str
     [(''metadata'', [(''name'', ''x'')])]
     (Some [(''options.extras_require'', [(''develop'', ''pytest'')])]) = Inl KeyError \<and>
   setup_cfg_parser spec_parsers (BytesIO ''[metadata]\<newline>name = x\<newline>'')
     ''setup.cfg.template'' = Inr [(''metadata'', [(''name'', ''x'')])] \<and>
   setup_cfg_parser spec_parsers (BytesIO ''[options.extras_require]\<newline>develop = pytest\<newline>'')
     ''setup.cfg.target'' = Inr [(''options.extras_require'', [(''develop'', ''pytest'')])] \<and>
   SetupcfgMerge_apply spec_parsers latin1_str
     (Some (BytesIO ''[options.extras_require]\<newline>develop = pytest\<newline>''))
     (BytesIO ''[metadata]\<newline>name = x\<newline>'') = Inl KeyError"
  by code_simp

text \<open>
  Claim C2. Two inputs on which the preservation of sections does not do what the names
  of the patterns say. A target section \<open>options.extras_require\<close> is not copied into a
  template without that section: the call raises \<open>KeyError\<close>, whereas the call for
  \<open>options.entry_points\<close>, without a pattern of keys, appends the target's section to such
  a template. And the dot of \<open>^options.entry_points$\<close> is not escaped, so the pattern also
  matches \<open>options_entry_points\<close>: a template section of that name is replaced by the
  target's section.
\<close>

theorem maybe_preserve_sections_divergence:
  "maybe_preserve_sections
     [(''metadata'', [(''name'', ''x'')])]
     [(''options.extras_require'', [(''develop'', ''pytest''), (''docs'', ''sphinx'')])]
     (re_compile ''^options.extras_require$'') (Some (re_compile ''^develop$'')) =
     Inl KeyError \<and>
   maybe_preserve_sections
     [(''metadata'', [(''name'', ''x'')])]
     [(''options.entry_points'', [(''console_scripts'', ''x = y:z'')])]
     (re_compile ''^options.entry_points$'') None =
     Inr [(''metadata'', [(''name'', ''x'')]),
          (''options.entry_points'', [(''console_scripts'', ''x = y:z'')])] \<and>
   re_match (re_compile ''^options.entry_points$'') ''options_entry_points'' \<and>
   preserve_from_target
     [(''options_entry_points'', [(''a'', ''1'')])]
     [(''options_entry_points'', [(''a'', ''2'')])] =
     Inr [(''options_entry_points'', [(''a'', ''2'')])]"
  by code_simp

end
